theory Spec2Isabelle
  imports Complex_Main
begin

section \<open>Conventions of the embedding\<close>

text \<open>
  The program is Python. Its values are modelled as follows.
  \<^item> A \<open>str\<close> is a \<open>string\<close>; one \<open>char\<close> stands for one Unicode code point below 256
    (the Latin-1 block), so \<open>length\<close> counts code points as Python's \<open>len\<close> does. The
    character predicates of Python are written out on that range.
  \<^item> An \<open>int\<close> is an \<open>int\<close>. A \<open>float\<close> is a \<open>real\<close>: the value a float denotes, with
    exact arithmetic; rounding of float operations, infinities and NaN are not modelled.
  \<^item> A \<open>dict\<close> is an association list in insertion order, a \<open>set\<close> whose iteration
    order is observable a list, any other \<open>set\<close> a set.
  \<^item> A raised exception is the left summand of a result \<open>error + 'a\<close>.
\<close>

datatype error = ValueError

subsection \<open>Python's built-in string operations, on code points below 256\<close>

definition ord :: "char \<Rightarrow> nat" where
  "ord c = of_char c"

definition in_range :: "nat \<Rightarrow> nat \<Rightarrow> char \<Rightarrow> bool" where
  "in_range lo hi c = (lo \<le> ord c \<and> ord c \<le> hi)"

text \<open>\<open>c.islower()\<close>: a-z, the ordinal indicators, the micro sign, and the small letters
  of the Latin-1 supplement.\<close>

definition islower :: "char \<Rightarrow> bool" where
  "islower c = (in_range 0x61 0x7A c \<or> ord c = 0xAA \<or> ord c = 0xB5 \<or> ord c = 0xBA
     \<or> in_range 0xDF 0xF6 c \<or> in_range 0xF8 0xFF c)"

definition isupper :: "char \<Rightarrow> bool" where
  "isupper c = (in_range 0x41 0x5A c \<or> in_range 0xC0 0xD6 c \<or> in_range 0xD8 0xDE c)"

text \<open>\<open>c.isdigit()\<close> accepts the superscript digits U+00B2, U+00B3 and U+00B9 besides
  0-9; \<open>c.isdecimal()\<close> accepts 0-9 only, and \<open>int(c)\<close> raises on anything else.\<close>

definition isdigit :: "char \<Rightarrow> bool" where
  "isdigit c = (in_range 0x30 0x39 c \<or> ord c = 0xB2 \<or> ord c = 0xB3 \<or> ord c = 0xB9)"

definition isdecimal :: "char \<Rightarrow> bool" where
  "isdecimal c = in_range 0x30 0x39 c"

definition isalpha :: "char \<Rightarrow> bool" where
  "isalpha c = (in_range 0x41 0x5A c \<or> in_range 0x61 0x7A c \<or> ord c = 0xAA \<or> ord c = 0xB5
     \<or> ord c = 0xBA \<or> in_range 0xC0 0xD6 c \<or> in_range 0xD8 0xF6 c \<or> in_range 0xF8 0xFF c)"

text \<open>\<open>s.isalpha()\<close> and \<open>s.isdigit()\<close> on a string: every character, and at least one.\<close>

definition str_isalpha :: "string \<Rightarrow> bool" where
  "str_isalpha s = (s \<noteq> [] \<and> list_all isalpha s)"

definition str_isdigit :: "string \<Rightarrow> bool" where
  "str_isdigit s = (s \<noteq> [] \<and> list_all isdigit s)"

text \<open>\<open>s.lower()\<close>: on this range every upper-case letter has its lower-case partner 32
  code points up, and nothing else changes.\<close>

definition lower_char :: "char \<Rightarrow> char" where
  "lower_char c = (if isupper c then char_of (ord c + 32) else c)"

definition lower :: "string \<Rightarrow> string" where
  "lower s = map lower_char s"

text \<open>\<open>s.upper()\<close>, on the ASCII strings the program applies it to.\<close>

definition upper_char :: "char \<Rightarrow> char" where
  "upper_char c = (if in_range 0x61 0x7A c then char_of (ord c - 32) else c)"

definition upper :: "string \<Rightarrow> string" where
  "upper s = map upper_char s"

text \<open>\<open>int(x)\<close> for a float: truncation towards zero.\<close>

definition int_of_float :: "real \<Rightarrow> int" where
  "int_of_float x = (if 0 \<le> x then \<lfloor>x\<rfloor> else \<lceil>x\<rceil>)"

text \<open>\<open>str(n)\<close> for a non-negative integer.\<close>

definition digit_char :: "nat \<Rightarrow> char" where
  "digit_char d = char_of (48 + d)"

fun str_nat :: "nat \<Rightarrow> string" where
  "str_nat n = (if n < 10 then [digit_char n] else str_nat (n div 10) @ [digit_char (n mod 10)])"

declare str_nat.simps [simp del]

text \<open>\<open>format(x, '.df')\<close>: the value rounded half-to-even to \<open>d\<close> decimals, the sign of
  a negative value kept. Python formats the binary double, the model the exact real: where
  an exact quotient lies on a decimal tie the double lies beside it, and the last digit can
  differ (1/40 prints as 0.03 in Python and as 0.02 here). No statement below depends on
  the digits printed.\<close>

definition round_half_even :: "real \<Rightarrow> int" where
  "round_half_even y =
     (let f = \<lfloor>y\<rfloor>; r = y - of_int f
      in if r < 1/2 then f else if 1/2 < r then f + 1 else if even f then f else f + 1)"

definition format_fixed :: "nat \<Rightarrow> real \<Rightarrow> string" where
  "format_fixed d x =
     (let n = nat (round_half_even (\<bar>x\<bar> * 10 ^ d));
          ip = str_nat (n div 10 ^ d);
          fp = str_nat (n mod 10 ^ d)
      in (if x < 0 then ''-'' else '''') @ ip
         @ (if d = 0 then '''' else ''.'' @ replicate (d - length fp) (CHR ''0'') @ fp))"

text \<open>\<open>d.get(k, default)\<close> and \<open>k in d\<close> for a dict.\<close>

definition dict_get :: "('k \<times> 'v) list \<Rightarrow> 'k \<Rightarrow> 'v \<Rightarrow> 'v" where
  "dict_get d k dflt = (case map_of d k of None \<Rightarrow> dflt | Some v \<Rightarrow> v)"

definition dict_has :: "('k \<times> 'v) list \<Rightarrow> 'k \<Rightarrow> bool" where
  "dict_has d k = (k \<in> set (map fst d))"

section \<open>config.py\<close>

definition SCORE_THRESHOLDS :: "(string \<times> int) list" where
  "SCORE_THRESHOLDS = [(''WEAK'', 40), (''MEDIUM'', 60), (''STRONG'', 80), (''VERY_STRONG'', 100)]"

definition MIN_ENTROPY_BITS :: real where
  "MIN_ENTROPY_BITS = 20"

definition ENTROPY_PENALTY_MULTIPLIER :: real where
  "ENTROPY_PENALTY_MULTIPLIER = 3 / 10"

definition PATTERN_PENALTIES :: "(string \<times> int) list" where
  "PATTERN_PENALTIES =
     [(''repeated_chars'', 15), (''sequential_chars'', 20), (''keyboard_pattern'', 25),
      (''leetspeak'', 10), (''dictionary_word'', 30), (''year_pattern'', 15),
      (''username_similarity'', 25), (''low_variety'', 20)]"

definition SIMILARITY_THRESHOLD :: real where
  "SIMILARITY_THRESHOLD = 1 / 2"

definition MIN_CHAR_VARIETY_RATIO :: real where
  "MIN_CHAR_VARIETY_RATIO = 3 / 10"

definition min_repeat_length :: nat where
  "min_repeat_length = 3"

definition min_sequence_length :: nat where
  "min_sequence_length = 4"

definition min_keyboard_pattern_length :: nat where
  "min_keyboard_pattern_length = 4"

definition max_year_range :: "int \<times> int" where
  "max_year_range = (1900, 2099)"

definition min_dictionary_word_length :: nat where
  "min_dictionary_word_length = 4"

definition get_char_pool_size :: "bool \<Rightarrow> bool \<Rightarrow> bool \<Rightarrow> bool \<Rightarrow> nat" where
  "get_char_pool_size has_lower has_upper has_digit has_special =
     max ((if has_lower then 26 else 0) + (if has_upper then 26 else 0)
          + (if has_digit then 10 else 0) + (if has_special then 33 else 0)) 1"

section \<open>scorer.py\<close>

type_synonym pattern_issues = "(string \<times> string list) list"

record char_classes =
  has_lower :: bool
  has_upper :: bool
  has_digit :: bool
  has_special :: bool
  pool_size :: "nat option"

text \<open>The base score, in exact arithmetic. Python computes the expression in doubles
  before truncating, so just below a segment boundary the code can give one point more
  than the model (entropy 79.99999999999999: 80 in Python, 79 here), and a NaN makes
  \<open>int\<close> raise. The statements about the score below hold for any base score.\<close>

definition base_score :: "real \<Rightarrow> int" where
  "base_score entropy_bits =
     (if entropy_bits \<le> 0 then 0
      else if entropy_bits < 20 then int_of_float ((entropy_bits / 20) * 20)
      else if entropy_bits < 40 then int_of_float (20 + ((entropy_bits - 20) / 20) * 30)
      else if entropy_bits < 60 then int_of_float (50 + ((entropy_bits - 40) / 20) * 20)
      else int_of_float (70 + min ((entropy_bits - 60) / 20 * 10) 10))"

text \<open>The loop over \<open>pattern_issues.items()\<close>: one penalty for each category whose issue
  list is not empty.\<close>

fun apply_penalties :: "int \<Rightarrow> pattern_issues \<Rightarrow> int" where
  "apply_penalties score [] = score"
| "apply_penalties score ((pattern_type, issues) # rest) =
     apply_penalties
       (if issues \<noteq> [] then score - dict_get PATTERN_PENALTIES pattern_type 0 else score) rest"

definition length_bonus :: "int \<Rightarrow> int" where
  "length_bonus len = (if 16 \<le> len then 5 else if 12 \<le> len then 3 else if 8 \<le> len then 1 else 0)"

definition calculate_score :: "real \<Rightarrow> pattern_issues \<Rightarrow> bool \<Rightarrow> int \<Rightarrow> int" where
  "calculate_score entropy_bits pattern_issues is_breached len =
     (if is_breached then 0
      else let score = apply_penalties (base_score entropy_bits) pattern_issues;
               score = score + length_bonus len
           in max 0 (min 100 score))"

definition classify_strength :: "int \<Rightarrow> string" where
  "classify_strength score =
     (if score < dict_get SCORE_THRESHOLDS ''WEAK'' 0 then ''Weak''
      else if score < dict_get SCORE_THRESHOLDS ''MEDIUM'' 0 then ''Medium''
      else if score < dict_get SCORE_THRESHOLDS ''STRONG'' 0 then ''Strong''
      else ''Very Strong'')"

text \<open>The recommendations that do not depend on the pattern categories: strength tier,
  entropy threshold, length tiers and missing character classes, in the order of the source.\<close>

definition general_recommendations ::
  "string \<Rightarrow> real \<Rightarrow> char_classes \<Rightarrow> int \<Rightarrow> string list" where
  "general_recommendations strength entropy_bits cc len =
     (if strength = ''Weak''
      then [''Password is weak. Consider using a longer, more complex password.''] else [])
     @ (if entropy_bits < MIN_ENTROPY_BITS
        then [''Entropy is low ('' @ format_fixed 1 entropy_bits
              @ '' bits). Increase password complexity.''] else [])
     @ (if len < 8 then [''Password is too short. Use at least 8 characters.'']
        else if len < 12
        then [''Consider using a longer password (12+ characters) for better security.'']
        else [])
     @ (if \<not> has_lower cc then [''Add lowercase letters to increase character variety.''] else [])
     @ (if \<not> has_upper cc then [''Add uppercase letters to increase character variety.''] else [])
     @ (if \<not> has_digit cc then [''Add numbers to increase character variety.''] else [])
     @ (if \<not> has_special cc
        then [''Add special characters to increase character variety.''] else [])"

text \<open>The pattern-specific recommendations, in the order of the source.\<close>

definition pattern_recommendations :: "pattern_issues \<Rightarrow> string list" where
  "pattern_recommendations pattern_issues =
     (if dict_has pattern_issues ''repeated_chars''
      then [''Avoid repeating the same character multiple times.''] else [])
     @ (if dict_has pattern_issues ''sequential_chars''
        then [''Avoid sequential patterns (abc, 123, etc.).''] else [])
     @ (if dict_has pattern_issues ''keyboard_pattern''
        then [''Avoid keyboard patterns (qwerty, asdf, etc.).''] else [])
     @ (if dict_has pattern_issues ''dictionary_word''
        then [''Avoid common dictionary words. Use random or uncommon words.''] else [])
     @ (if dict_has pattern_issues ''year_pattern''
        then [''Avoid year patterns. Don't use birth years or common years.''] else [])
     @ (if dict_has pattern_issues ''username_similarity''
        then [''Don't use your username or email in your password.''] else [])
     @ (if dict_has pattern_issues ''leetspeak''
        then [''Leetspeak substitutions (p@ssw0rd) are predictable. Use truly random characters.'']
        else [])"

definition generate_recommendations ::
  "int \<Rightarrow> string \<Rightarrow> real \<Rightarrow> pattern_issues \<Rightarrow> bool \<Rightarrow> char_classes \<Rightarrow> int \<Rightarrow> string list" where
  "generate_recommendations score strength entropy_bits pattern_issues is_breached cc len =
     (if is_breached
      then [''This password has been compromised in a data breach. Use a completely different password.'']
      else let recommendations =
                 general_recommendations strength entropy_bits cc len
                 @ pattern_recommendations pattern_issues
           in if recommendations = []
              then [''Password meets good security practices. Keep it secure and don't reuse it.'']
              else recommendations)"


section \<open>entropy.py\<close>

text \<open>The literal of special characters tested by \<open>calculate_entropy\<close>, by code point:
  the 32 ASCII punctuation characters.\<close>

definition special_chars :: string where
  "special_chars = map char_of
     [0x21, 0x22, 0x23, 0x24, 0x25, 0x26, 0x27, 0x28, 0x29, 0x2A, 0x2B, 0x2C, 0x2D, 0x2E, 0x2F,
      0x3A, 0x3B, 0x3C, 0x3D, 0x3E, 0x3F, 0x40, 0x5B, 0x5C, 0x5D, 0x5E, 0x5F, 0x60,
      0x7B, 0x7C, 0x7D, 0x7E :: nat]"

definition class_flags :: "string \<Rightarrow> bool \<times> bool \<times> bool \<times> bool" where
  "class_flags password =
     (list_ex islower password, list_ex isupper password, list_ex isdigit password,
      list_ex (\<lambda>c. c \<in> set special_chars) password)"

definition calculate_entropy :: "string \<Rightarrow> bool \<Rightarrow> real \<times> char_classes" where
  "calculate_entropy password has_patterns =
     (if password = []
      then (0, \<lparr>has_lower = False, has_upper = False, has_digit = False, has_special = False,
                pool_size = None\<rparr>)
      else case class_flags password of (hl, hu, hg, hs) \<Rightarrow>
        let pool = get_char_pool_size hl hu hg hs;
            len = length password;
            base_entropy = real len * log 2 (real pool);
            effective_entropy =
              (if has_patterns then base_entropy * (1 - ENTROPY_PENALTY_MULTIPLIER)
               else base_entropy);
            effective_entropy = max 0 effective_entropy
        in (effective_entropy,
            \<lparr>has_lower = hl, has_upper = hu, has_digit = hg, has_special = hs,
             pool_size = Some pool\<rparr>))"

section \<open>breach.py\<close>

text \<open>What lies outside the repository: the difflib matcher, the SHA-1 digest and the
  HTTP client. A call of \<open>requests.get\<close> either raises, with the text of the exception,
  or returns a status code and a body.\<close>

datatype http_outcome = Raised string | Response int string

record platform =
  sequence_matcher_ratio :: "string \<Rightarrow> string \<Rightarrow> real"
  sha1_hexdigest :: "string \<Rightarrow> string"
  requests_available :: bool
  requests_get :: "string \<Rightarrow> http_outcome"

record breach_config =
  hibp_api_url :: string
  hibp_enabled :: bool

definition BREACH_CONFIG :: breach_config where
  "BREACH_CONFIG = \<lparr>hibp_api_url = ''https://api.pwnedpasswords.com/range/'',
                     hibp_enabled = False\<rparr>"

record breach_checker =
  blacklist :: "string set"

text \<open>\<open>text.splitlines()\<close>: the line boundaries below code point 256, CR LF counted
  as one.\<close>

definition is_linebreak :: "char \<Rightarrow> bool" where
  "is_linebreak c = (ord c \<in> {0x0A, 0x0B, 0x0C, 0x0D, 0x1C, 0x1D, 0x1E, 0x85})"

fun splitlines_from :: "string \<Rightarrow> string \<Rightarrow> string list" where
  "splitlines_from cur [] = (if cur = [] then [] else [cur])"
| "splitlines_from cur (c # cs) =
     (if ord c = 0x0D
      then (case cs of
              [] \<Rightarrow> [cur]
            | d # ds \<Rightarrow> if ord d = 0x0A then cur # splitlines_from [] ds
                        else cur # splitlines_from [] cs)
      else if is_linebreak c then cur # splitlines_from [] cs
      else splitlines_from (cur @ [c]) cs)"

definition splitlines :: "string \<Rightarrow> string list" where
  "splitlines text = splitlines_from [] text"

text \<open>The loop over the lines of the response: \<open>SUFFIX:COUNT\<close>, split at the first colon.\<close>

fun scan_hibp_lines :: "string \<Rightarrow> string list \<Rightarrow> bool \<times> string option" where
  "scan_hibp_lines hash_suffix [] = (False, None)"
| "scan_hibp_lines hash_suffix (line # rest) =
     (if CHR '':'' \<in> set line
      then let suffix = takeWhile (\<lambda>c. c \<noteq> CHR '':'') line;
               count = tl (dropWhile (\<lambda>c. c \<noteq> CHR '':'') line)
           in if suffix = hash_suffix
              then (True, Some (''Password found in HIBP database ('' @ count @ '' breaches)''))
              else scan_hibp_lines hash_suffix rest
      else scan_hibp_lines hash_suffix rest)"

definition password_hash :: "platform \<Rightarrow> string \<Rightarrow> string" where
  "password_hash pf password = upper (sha1_hexdigest pf password)"

definition hibp_query_url :: "platform \<Rightarrow> breach_config \<Rightarrow> string \<Rightarrow> string" where
  "hibp_query_url pf cfg password = hibp_api_url cfg @ take 5 (password_hash pf password)"

definition check_hibp :: "platform \<Rightarrow> breach_config \<Rightarrow> string \<Rightarrow> bool \<times> string option" where
  "check_hibp pf cfg password =
     (if \<not> requests_available pf then (False, Some ''HIBP check requires 'requests' library'')
      else let hash_suffix = drop 5 (password_hash pf password);
               api_url = hibp_query_url pf cfg password
           in case requests_get pf api_url of
                Raised e \<Rightarrow> (False, Some (''HIBP check failed: '' @ e))
              | Response status_code text \<Rightarrow>
                  if status_code = 200 then scan_hibp_lines hash_suffix (splitlines text)
                  else (False, None))"

definition check_breach ::
  "platform \<Rightarrow> breach_config \<Rightarrow> breach_checker \<Rightarrow> string \<Rightarrow> bool \<times> string option" where
  "check_breach pf cfg self password =
     (let password_lower = lower password
      in if password_lower \<in> blacklist self
         then (True, Some ''Password found in common breach database (top 10k)'')
         else if hibp_enabled cfg
         then (case check_hibp pf cfg password of
                 (hibp_breached, hibp_reason) \<Rightarrow>
                   if hibp_breached then (True, hibp_reason) else (False, None))
         else (False, None))"

definition add_to_blacklist :: "breach_checker \<Rightarrow> string \<Rightarrow> breach_checker" where
  "add_to_blacklist self password = self\<lparr>blacklist := insert (lower password) (blacklist self)\<rparr>"

section \<open>patterns.py\<close>

text \<open>\<open>int(s)\<close> on the strings the detectors pass to it: one character, or a run of
  decimal digits found by a regular expression.\<close>

definition int_of_str :: "string \<Rightarrow> error + int" where
  "int_of_str s =
     (if s \<noteq> [] \<and> list_all isdecimal s
      then Inr (foldl (\<lambda>acc c. 10 * acc + (int (ord c) - 48)) 0 s)
      else Inl ValueError)"

text \<open>\<open>w in s\<close> for strings, and the slices \<open>s[i:i + n]\<close> for \<open>i\<close> in
  \<open>range(len(s) - n + 1)\<close>.\<close>

fun contains :: "string \<Rightarrow> string \<Rightarrow> bool" where
  "contains w [] = (w = [])"
| "contains w (c # cs) = (take (length w) (c # cs) = w \<or> contains w cs)"

definition windows :: "nat \<Rightarrow> string \<Rightarrow> string list" where
  "windows n s = map (\<lambda>i. take n (drop i s)) [0 ..< length s + 1 - n]"

definition quote :: char where
  "quote = char_of (0x27 :: nat)"

definition KEYBOARD_ROWS :: "string list" where
  "KEYBOARD_ROWS = [''qwertyuiop'', ''asdfghjkl'', ''zxcvbnm'', ''1234567890'']"

definition LEETSPEAK_MAP :: "(string \<times> string list) list" where
  "LEETSPEAK_MAP =
     [(''a'', [''4'', ''@'']), (''e'', [''3'']), (''i'', [''1'', ''!'']), (''o'', [''0'']),
      (''s'', [''5'', ''$'']), (''t'', [''7'']), (''l'', [''1'']), (''z'', [''2''])]"

record pattern_detector =
  dictionary_words :: "string list"
  keyboard_patterns :: "string set"

definition row_patterns :: "string \<Rightarrow> string list" where
  "row_patterns row =
     concat (map (\<lambda>pattern. [pattern, upper pattern]) (windows min_keyboard_pattern_length row))"

definition column_patterns :: "string list" where
  "column_patterns =
     concat (map (\<lambda>col_idx.
        let col_pattern =
              concat (map (\<lambda>row. if col_idx < length row then [row ! col_idx] else [])
                        (take 3 KEYBOARD_ROWS))
        in if min_keyboard_pattern_length \<le> length col_pattern
           then [col_pattern, upper col_pattern] else []) [0 ..< 10])"

definition build_keyboard_patterns :: "string set" where
  "build_keyboard_patterns =
     set (concat (map row_patterns KEYBOARD_ROWS)
          @ concat (map (\<lambda>row. row_patterns (rev row)) KEYBOARD_ROWS)
          @ column_patterns)"

text \<open>The constructor: no dictionary given means the empty one.\<close>

definition new_pattern_detector :: "string list option \<Rightarrow> pattern_detector" where
  "new_pattern_detector words =
     \<lparr>dictionary_words = (case words of None \<Rightarrow> [] | Some ws \<Rightarrow> ws),
      keyboard_patterns = build_keyboard_patterns\<rparr>"

text \<open>Repeated characters: the run starting at the head is counted, reported when long
  enough, and the scan goes on behind it.\<close>

function detect_repeated_chars :: "string \<Rightarrow> string list" where
  "detect_repeated_chars [] = []"
| "detect_repeated_chars (c # cs) =
     (let count = 1 + length (takeWhile (\<lambda>x. x = c) cs)
      in (if min_repeat_length \<le> count
          then [''Repeated character '' @ [quote, c, quote] @ '' '' @ str_nat count @ '' times'']
          else [])
         @ detect_repeated_chars (dropWhile (\<lambda>x. x = c) cs))"
  by pat_completeness auto
termination
  by (relation "measure length") (auto simp: length_dropWhile_le less_Suc_eq_le)

fun ascending_alpha_steps :: "string \<Rightarrow> bool" where
  "ascending_alpha_steps (a # b # rest) =
     (if ord b \<noteq> ord a + 1 then False else ascending_alpha_steps (b # rest))"
| "ascending_alpha_steps s = True"

definition is_ascending_alpha :: "string \<Rightarrow> bool" where
  "is_ascending_alpha s = (if \<not> str_isalpha s then False else ascending_alpha_steps (lower s))"

fun descending_alpha_steps :: "string \<Rightarrow> bool" where
  "descending_alpha_steps (a # b # rest) =
     (if int (ord b) \<noteq> int (ord a) - 1 then False else descending_alpha_steps (b # rest))"
| "descending_alpha_steps s = True"

definition is_descending_alpha :: "string \<Rightarrow> bool" where
  "is_descending_alpha s = (if \<not> str_isalpha s then False else descending_alpha_steps (lower s))"

text \<open>The numeric loops call \<open>int\<close> on single characters; the comparison evaluates its
  left operand \<open>int(s[i + 1])\<close> first.\<close>

fun ascending_numeric_steps :: "string \<Rightarrow> error + bool" where
  "ascending_numeric_steps (a # b # rest) =
     (case int_of_str [b] of
        Inl e \<Rightarrow> Inl e
      | Inr nb \<Rightarrow>
          (case int_of_str [a] of
             Inl e \<Rightarrow> Inl e
           | Inr na \<Rightarrow>
               if nb \<noteq> (na + 1) mod 10 then Inr False
               else ascending_numeric_steps (b # rest)))"
| "ascending_numeric_steps s = Inr True"

definition is_ascending_numeric :: "string \<Rightarrow> error + bool" where
  "is_ascending_numeric s = (if \<not> str_isdigit s then Inr False else ascending_numeric_steps s)"

fun descending_numeric_steps :: "string \<Rightarrow> error + bool" where
  "descending_numeric_steps (a # b # rest) =
     (case int_of_str [b] of
        Inl e \<Rightarrow> Inl e
      | Inr nb \<Rightarrow>
          (case int_of_str [a] of
             Inl e \<Rightarrow> Inl e
           | Inr na \<Rightarrow>
               if nb \<noteq> (na - 1) mod 10 then Inr False
               else descending_numeric_steps (b # rest)))"
| "descending_numeric_steps s = Inr True"

definition is_descending_numeric :: "string \<Rightarrow> error + bool" where
  "is_descending_numeric s = (if \<not> str_isdigit s then Inr False else descending_numeric_steps s)"

definition sequential_issue :: "string \<Rightarrow> string \<Rightarrow> string" where
  "sequential_issue window kind =
     ''Sequential pattern: '' @ [quote] @ window @ [quote] @ '' ('' @ kind @ '')''"

text \<open>The loop over the windows, with the list of issues collected so far.\<close>

fun sequential_loop :: "string list \<Rightarrow> string list \<Rightarrow> error + string list" where
  "sequential_loop issues [] = Inr issues"
| "sequential_loop issues (window # rest) =
     (if is_ascending_alpha window
      then sequential_loop (issues @ [sequential_issue window ''ascending'']) rest
      else if is_descending_alpha window
      then sequential_loop (issues @ [sequential_issue window ''descending'']) rest
      else case is_ascending_numeric window of
             Inl e \<Rightarrow> Inl e
           | Inr True \<Rightarrow> sequential_loop (issues @ [sequential_issue window ''numerical'']) rest
           | Inr False \<Rightarrow>
               (case is_descending_numeric window of
                  Inl e \<Rightarrow> Inl e
                | Inr True \<Rightarrow>
                    sequential_loop
                      (issues @ [sequential_issue window ''numerical descending'']) rest
                | Inr False \<Rightarrow> sequential_loop issues rest))"

definition detect_sequential_chars :: "string \<Rightarrow> error + string list" where
  "detect_sequential_chars password = sequential_loop [] (windows min_sequence_length password)"

definition detect_keyboard_patterns :: "pattern_detector \<Rightarrow> string \<Rightarrow> string list" where
  "detect_keyboard_patterns self password_lower =
     map (\<lambda>window. ''Keyboard pattern detected: '' @ [quote] @ window @ [quote])
       (filter (\<lambda>window. window \<in> keyboard_patterns self)
          (windows min_keyboard_pattern_length password_lower))"

text \<open>The five regular expressions are sequences of character classes; \<open>re.search\<close>
  looks for a match at any position.\<close>

fun regex_match_here :: "string list \<Rightarrow> string \<Rightarrow> bool" where
  "regex_match_here [] s = True"
| "regex_match_here (cls # rest) [] = False"
| "regex_match_here (cls # rest) (c # cs) = (c \<in> set cls \<and> regex_match_here rest cs)"

fun regex_search :: "string list \<Rightarrow> string \<Rightarrow> bool" where
  "regex_search pat [] = regex_match_here pat []"
| "regex_search pat (c # cs) = (regex_match_here pat (c # cs) \<or> regex_search pat cs)"

definition leet_patterns :: "(string list \<times> string) list" where
  "leet_patterns =
     [([''a@'', ''d'', ''m'', ''i1'', ''n''], ''admin''),
      ([''p'', ''@a'', ''s'', ''s'', ''w'', ''o0'', ''r'', ''d''], ''password''),
      ([''l1'', ''0'', ''v'', ''3''], ''love''),
      ([''h4'', ''a'', ''c'', ''k''], ''hack''),
      ([''t7'', ''e'', ''s'', ''t''], ''test'')]"

definition leet_count :: "string \<Rightarrow> nat" where
  "leet_count password_lower =
     length (filter (\<lambda>c. list_ex (\<lambda>(original, substitutions). [c] \<in> set substitutions)
                              LEETSPEAK_MAP) password_lower)"

definition detect_leetspeak :: "string \<Rightarrow> string list" where
  "detect_leetspeak password_lower =
     map (\<lambda>(pattern, word).
            ''Leetspeak substitution detected (resembles '' @ [quote] @ word @ [quote] @ '')'')
       (filter (\<lambda>(pattern, word). regex_search pattern password_lower) leet_patterns)
     @ (if 0 < length password_lower
           \<and> 3 / 10 < real (leet_count password_lower) / real (length password_lower)
        then [''High leetspeak substitution ratio detected''] else [])"

text \<open>\<open>issue.split("'")[1]\<close> for an issue that contains a quote.\<close>

definition quoted_word :: "string \<Rightarrow> string" where
  "quoted_word issue = takeWhile (\<lambda>c. c \<noteq> quote) (tl (dropWhile (\<lambda>c. c \<noteq> quote) issue))"

fun dictionary_loop :: "string \<Rightarrow> string list \<Rightarrow> string list \<Rightarrow> string list" where
  "dictionary_loop password_lower issues [] = issues"
| "dictionary_loop password_lower issues (word # rest) =
     dictionary_loop password_lower
       (if min_dictionary_word_length \<le> length word \<and> contains word password_lower
           \<and> word \<notin> set (map quoted_word (filter (\<lambda>issue. quote \<in> set issue) issues))
        then issues @ [''Contains dictionary word: '' @ [quote] @ word @ [quote]]
        else issues) rest"

definition detect_dictionary_words :: "pattern_detector \<Rightarrow> string \<Rightarrow> string list" where
  "detect_dictionary_words self password_lower =
     (if dictionary_words self = [] then []
      else dictionary_loop password_lower
             (if min_dictionary_word_length \<le> length password_lower
                 \<and> password_lower \<in> set (dictionary_words self)
              then [''Password is a common dictionary word: '' @ [quote] @ password_lower @ [quote]]
              else [])
             (dictionary_words self))"

text \<open>\<open>re.finditer(r'\d{4}', password)\<close>: the matches from left to right, the scan
  going on behind each match.\<close>

function finditer_4_digits :: "string \<Rightarrow> string list" where
  "finditer_4_digits s =
     (if length s < 4 then []
      else if list_all isdecimal (take 4 s) then take 4 s # finditer_4_digits (drop 4 s)
      else finditer_4_digits (tl s))"
  by pat_completeness auto
termination
  by (relation "measure length") auto

declare finditer_4_digits.simps [simp del]

definition detect_year_patterns :: "string \<Rightarrow> string list" where
  "detect_year_patterns password =
     concat (map (\<lambda>year_str.
        case int_of_str year_str of
          Inl e \<Rightarrow> []
        | Inr year \<Rightarrow>
            if fst max_year_range \<le> year \<and> year \<le> snd max_year_range
            then [''Year pattern detected: '' @ [quote] @ year_str @ [quote]] else [])
       (finditer_4_digits password))"

text \<open>Truth value of an optional string: \<open>None\<close> and the empty string are false.\<close>

fun truthy :: "string option \<Rightarrow> bool" where
  "truthy None = False"
| "truthy (Some s) = (s \<noteq> [])"

definition similarity_issues ::
  "platform \<Rightarrow> string \<Rightarrow> string \<Rightarrow> string \<Rightarrow> string \<Rightarrow> string list" where
  "similarity_issues pf password_lower name contains_message similar_message =
     (if contains name password_lower then [contains_message] else [])
     @ (let similarity = sequence_matcher_ratio pf password_lower name
        in if SIMILARITY_THRESHOLD \<le> similarity
           then [''Password too similar to '' @ similar_message @ '' (similarity: ''
                 @ format_fixed 2 similarity @ '')'']
           else [])"

definition detect_username_similarity ::
  "platform \<Rightarrow> string \<Rightarrow> string option \<Rightarrow> string option \<Rightarrow> string list" where
  "detect_username_similarity pf password username email =
     (if \<not> truthy username \<and> \<not> truthy email then []
      else let password_lower = lower password
           in (case username of
                 Some u \<Rightarrow>
                   if u \<noteq> []
                   then similarity_issues pf password_lower (lower u)
                          (''Password contains username: '' @ [quote] @ u @ [quote]) ''username''
                   else []
               | None \<Rightarrow> [])
              @ (case email of
                   Some e \<Rightarrow>
                     if e \<noteq> []
                     then let email_lower = lower e;
                              email_local =
                                (if CHR ''@'' \<in> set email_lower
                                 then takeWhile (\<lambda>c. c \<noteq> CHR ''@'') email_lower
                                 else email_lower)
                          in similarity_issues pf password_lower email_local
                               (''Password contains email username: '' @ [quote] @ email_local
                                @ [quote]) ''email''
                     else []
                 | None \<Rightarrow> []))"

text \<open>Low variety. The ratio is the exact quotient; the ratio printed in the issue is
  subject to the remark on \<open>format_fixed\<close>.\<close>

definition detect_low_variety :: "string \<Rightarrow> string list" where
  "detect_low_variety password =
     (if length password = 0 then []
      else let unique_chars = length (remdups password);
               variety_ratio = real unique_chars / real (length password)
           in if variety_ratio < MIN_CHAR_VARIETY_RATIO
              then [''Low character variety: '' @ str_nat unique_chars
                    @ '' unique characters out of '' @ str_nat (length password)
                    @ '' (ratio: '' @ format_fixed 2 variety_ratio @ '')'']
              else [])"

text \<open>All detectors, in the order of the source; the sequential detector is the one that
  can raise, after the repeated-character detector has run.\<close>

definition detect_all ::
  "platform \<Rightarrow> pattern_detector \<Rightarrow> string \<Rightarrow> string option \<Rightarrow> string option
   \<Rightarrow> error + pattern_issues" where
  "detect_all pf self password username email =
     (let password_lower = lower password;
          repeated = detect_repeated_chars password
      in case detect_sequential_chars password of
           Inl e \<Rightarrow> Inl e
         | Inr sequential \<Rightarrow>
             Inr (filter (\<lambda>(k, v). v \<noteq> [])
               [(''repeated_chars'', repeated),
                (''sequential_chars'', sequential),
                (''keyboard_pattern'', detect_keyboard_patterns self password_lower),
                (''leetspeak'', detect_leetspeak password_lower),
                (''dictionary_word'', detect_dictionary_words self password_lower),
                (''year_pattern'', detect_year_patterns password),
                (''username_similarity'',
                 detect_username_similarity pf password username email),
                (''low_variety'', detect_low_variety password)]))"

section \<open>evaluator.py\<close>

record evaluator =
  detector :: pattern_detector
  checker :: breach_checker

record evaluation_result =
  score :: int
  strength :: string
  entropy_bits :: real
  issues :: "string list"
  recommendations :: "string list"
  is_breached :: bool
  breach_reason :: "string option"

text \<open>\<open>round(x, 2)\<close>.\<close>

definition round_2 :: "real \<Rightarrow> real" where
  "round_2 x = of_int (round_half_even (x * 100)) / 100"

definition evaluate ::
  "platform \<Rightarrow> breach_config \<Rightarrow> evaluator \<Rightarrow> string \<Rightarrow> string option \<Rightarrow> string option
   \<Rightarrow> error + evaluation_result" where
  "evaluate pf cfg self password username email =
     (if password = []
      then Inr \<lparr>score = 0, strength = ''Weak'', entropy_bits = 0,
                issues = [''Password is empty''],
                recommendations = [''Password cannot be empty''],
                is_breached = False, breach_reason = None\<rparr>
      else case detect_all pf (detector self) password username email of
             Inl e \<Rightarrow> Inl e
           | Inr pattern_issues \<Rightarrow>
               (let has_patterns = (pattern_issues \<noteq> []) in
                case calculate_entropy password has_patterns of
                  (entropy, cc) \<Rightarrow>
                (case check_breach pf cfg (checker self) password of
                   (breached, reason) \<Rightarrow>
                 let sc = calculate_score entropy pattern_issues breached (int (length password));
                     st = classify_strength sc;
                     recs = generate_recommendations sc st entropy pattern_issues breached cc
                              (int (length password));
                     found = concat (map snd pattern_issues);
                     found = (if breached \<and> truthy reason then the reason # found else found);
                     found = (if found = [] then [''No major issues detected''] else found)
                 in Inr \<lparr>score = sc, strength = st, entropy_bits = round_2 entropy,
                         issues = found, recommendations = recs,
                         is_breached = breached, breach_reason = reason\<rparr>)))"

section \<open>Reference notions used in the statements\<close>



text \<open>A platform for concrete runs: the digest function is the table of the SHA-1 digests of
  two passwords, and every request times out.\<close>

definition sha1_table :: "string \<Rightarrow> string" where
  "sha1_table p =
     (if p = ''password136'' then ''bd30b559bd9a84c988f99a2b3b05f4980e6d06cd''
      else if p = ''password1818'' then ''bd30b4e206823991de29a0c764e7f6ca6d98a890''
      else '''')"

definition offline_platform :: platform where
  "offline_platform =
     \<lparr>sequence_matcher_ratio = (\<lambda>a b. 0), sha1_hexdigest = sha1_table,
      requests_available = True, requests_get = (\<lambda>url. Raised ''timed out'')\<rparr>"

text \<open>A service that times out at the URL of the prefix BD30B and answers with an empty
  list anywhere else.\<close>

definition bd30b_only_service :: "string \<Rightarrow> http_outcome" where
  "bd30b_only_service url =
     (if url = ''https://api.pwnedpasswords.com/range/BD30B'' then Raised ''timed out''
      else Response 200 [])"

text \<open>A password with a superscript two (U+00B2) among decimal digits.\<close>

definition superscript_password :: string where
  "superscript_password = [CHR ''1'', CHR ''2'', CHR 0xB2, CHR ''4'']"

section \<open>Properties of the scorer\<close>

lemma calculate_score_bounds:
  "0 \<le> calculate_score e p b l \<and> calculate_score e p b l \<le> 100"
  by (simp add: calculate_score_def Let_def)

text \<open>
  Claim C1. A breached password scores exactly 0, whatever the entropy, the pattern-issue
  map and the length are.
\<close>

theorem calculate_score_breached:
  "calculate_score e p True len = 0"
  by (simp add: calculate_score_def)

text \<open>
  Claim C4. The score lies between 0 and 100, and its label is Weak exactly below 40,
  Medium exactly from 40 to 59, Strong exactly from 60 to 79 and Very Strong exactly from
  80 to 100.
\<close>

theorem score_range_and_label:
  "0 \<le> calculate_score e p b l \<and> calculate_score e p b l \<le> 100
   \<and> (classify_strength (calculate_score e p b l) = ''Weak'') = (calculate_score e p b l < 40)
   \<and> (classify_strength (calculate_score e p b l) = ''Medium'')
       = (40 \<le> calculate_score e p b l \<and> calculate_score e p b l < 60)
   \<and> (classify_strength (calculate_score e p b l) = ''Strong'')
       = (60 \<le> calculate_score e p b l \<and> calculate_score e p b l < 80)
   \<and> (classify_strength (calculate_score e p b l) = ''Very Strong'')
       = (80 \<le> calculate_score e p b l \<and> calculate_score e p b l \<le> 100)"
  using calculate_score_bounds [of e p b l]
  by (simp add: classify_strength_def SCORE_THRESHOLDS_def dict_get_def)

subsection \<open>Recommendations\<close>




section \<open>Properties of the entropy estimator\<close>

lemma pool_size_positive: "1 \<le> get_char_pool_size a b c d"
  by (simp add: get_char_pool_size_def)

lemma log_pool_nonneg: "0 \<le> log 2 (real (get_char_pool_size a b c d))"
  using pool_size_positive [of a b c d] by simp

lemma entropy_nonempty:
  "p \<noteq> [] \<Longrightarrow> class_flags p = (a, b, c, d) \<Longrightarrow>
   fst (calculate_entropy p hp)
   = real (length p) * log 2 (real (get_char_pool_size a b c d)) * (if hp then 7 / 10 else 1)"
  using log_pool_nonneg [of a b c d]
  by (simp add: calculate_entropy_def Let_def ENTROPY_PENALTY_MULTIPLIER_def max_def)

lemma entropy_empty: "fst (calculate_entropy [] hp) = 0"
  by (simp add: calculate_entropy_def)

lemma entropy_nonneg: "0 \<le> fst (calculate_entropy p hp)"
proof (cases "p = []")
  case True
  then show ?thesis by (simp add: entropy_empty)
next
  case False
  obtain a b c d where f: "class_flags p = (a, b, c, d)"
    by (cases "class_flags p") auto
  show ?thesis
    using log_pool_nonneg [of a b c d] by (simp add: entropy_nonempty [OF False f])
qed

lemma class_flags_ab_abc: "class_flags ''ab'' = class_flags ''abc''"
  by code_simp

text \<open>
  Claim C7. (a) Of two passwords with the same present character classes, evaluated with
  the same has_patterns flag, the longer one has at least the entropy of the shorter one.
  (b) For one password, the entropy with has_patterns true is at most the entropy with
  has_patterns false.
\<close>

theorem entropy_monotone:
  "(class_flags p = class_flags q \<and> length p \<le> length q
      \<longrightarrow> fst (calculate_entropy p hp) \<le> fst (calculate_entropy q hp))
   \<and> fst (calculate_entropy p True) \<le> fst (calculate_entropy p False)"
proof (intro conjI impI)
  assume h: "class_flags p = class_flags q \<and> length p \<le> length q"
  show "fst (calculate_entropy p hp) \<le> fst (calculate_entropy q hp)"
  proof (cases "p = []")
    case True
    then show ?thesis by (simp add: entropy_empty entropy_nonneg)
  next
    case False
    with h have q: "q \<noteq> []" by auto
    obtain a b c d where f: "class_flags q = (a, b, c, d)"
      by (cases "class_flags q") auto
    with h have fp: "class_flags p = (a, b, c, d)" by simp
    from h have "real (length p) \<le> real (length q)" by simp
    then have "real (length p) * log 2 (real (get_char_pool_size a b c d))
        \<le> real (length q) * log 2 (real (get_char_pool_size a b c d))"
      using log_pool_nonneg [of a b c d] by (rule mult_right_mono)
    then show ?thesis
      by (simp add: entropy_nonempty [OF False fp] entropy_nonempty [OF q f])
  qed
next
  show "fst (calculate_entropy p True) \<le> fst (calculate_entropy p False)"
  proof (cases "p = []")
    case True
    then show ?thesis by (simp add: entropy_empty)
  next
    case False
    obtain a b c d where f: "class_flags p = (a, b, c, d)"
      by (cases "class_flags p") auto
    show ?thesis
      using log_pool_nonneg [of a b c d]
      by (simp add: entropy_nonempty [OF False f] mult_left_le)
  qed
qed

theorem entropy_monotone_witness:
  "class_flags ''ab'' = class_flags ''abc'' \<and> length ''ab'' \<le> length ''abc''
   \<and> fst (calculate_entropy ''ab'' True) \<le> fst (calculate_entropy ''abc'' True)"
  using entropy_monotone [of "''ab''" "''abc''" True] class_flags_ab_abc by simp

section \<open>Properties of the breach checker\<close>

text \<open>
  Claim C2. With the remote check enabled and the request timing out, check_hibp returns
  a diagnostic reason, but check_breach returns no reason at all: the diagnostic is
  dropped, and the caller sees the same pair as for a password that is confirmed clear.
\<close>

theorem check_breach_drops_diagnostic:
  "check_hibp offline_platform (BREACH_CONFIG\<lparr>hibp_enabled := True\<rparr>) ''hunter2''
     = (False, Some ''HIBP check failed: timed out'')
   \<and> check_breach offline_platform (BREACH_CONFIG\<lparr>hibp_enabled := True\<rparr>)
       \<lparr>blacklist = {}\<rparr> ''hunter2''
     = (False, None)"
  by (simp add: check_breach_def check_hibp_def offline_platform_def)

text \<open>
  Claim C6. The remote service is consulted at one URL only, the base URL followed by the
  first five characters of the upper-case hexadecimal SHA-1 digest: two services that answer
  alike at that URL give the same result of the check, whatever they answer elsewhere. Two
  passwords whose digests share the five-character prefix are queried with that same URL.
\<close>

theorem hibp_query_by_prefix_only:
  assumes "take 5 (password_hash pf p) = take 5 (password_hash pf q)"
    and "service (hibp_api_url cfg @ take 5 (password_hash pf p))
         = other_service (hibp_api_url cfg @ take 5 (password_hash pf p))"
  shows "check_hibp (pf\<lparr>requests_get := service\<rparr>) cfg p
           = check_hibp (pf\<lparr>requests_get := other_service\<rparr>) cfg p
       \<and> check_hibp (pf\<lparr>requests_get := service\<rparr>) cfg q
           = check_hibp (pf\<lparr>requests_get := other_service\<rparr>) cfg q
       \<and> hibp_query_url pf cfg p = hibp_query_url pf cfg q"
  using assms by (simp add: check_hibp_def hibp_query_url_def password_hash_def)

theorem hibp_query_by_prefix_only_witness:
  "take 5 (password_hash offline_platform ''password136'')
     = take 5 (password_hash offline_platform ''password1818'')
   \<and> ''password136'' \<noteq> ''password1818''
   \<and> Raised ''timed out'' \<noteq> bd30b_only_service ''https://example.org/''
   \<and> (\<lambda>url. Raised ''timed out'')
        (hibp_api_url BREACH_CONFIG @ take 5 (password_hash offline_platform ''password136''))
      = bd30b_only_service
          (hibp_api_url BREACH_CONFIG @ take 5 (password_hash offline_platform ''password136''))
   \<and> check_hibp (offline_platform\<lparr>requests_get := (\<lambda>url. Raised ''timed out'')\<rparr>)
         BREACH_CONFIG ''password136''
      = check_hibp (offline_platform\<lparr>requests_get := bd30b_only_service\<rparr>)
          BREACH_CONFIG ''password136''
   \<and> check_hibp (offline_platform\<lparr>requests_get := (\<lambda>url. Raised ''timed out'')\<rparr>)
         BREACH_CONFIG ''password1818''
      = check_hibp (offline_platform\<lparr>requests_get := bd30b_only_service\<rparr>)
          BREACH_CONFIG ''password1818''
   \<and> hibp_query_url offline_platform BREACH_CONFIG ''password136''
     = hibp_query_url offline_platform BREACH_CONFIG ''password1818''"
proof -
  have h1: "take 5 (password_hash offline_platform ''password136'')
     = take 5 (password_hash offline_platform ''password1818'')"
    by (simp add: password_hash_def offline_platform_def sha1_table_def upper_def)
  have u: "hibp_api_url BREACH_CONFIG @ take 5 (password_hash offline_platform ''password136'')
     = ''https://api.pwnedpasswords.com/range/BD30B''"
    by code_simp
  have h2: "(\<lambda>url. Raised ''timed out'')
        (hibp_api_url BREACH_CONFIG @ take 5 (password_hash offline_platform ''password136''))
      = bd30b_only_service
          (hibp_api_url BREACH_CONFIG @ take 5 (password_hash offline_platform ''password136''))"
    unfolding u by (simp add: bd30b_only_service_def)
  from hibp_query_by_prefix_only
      [where pf = offline_platform and p = "''password136''" and q = "''password1818''"
         and cfg = BREACH_CONFIG and service = "\<lambda>url. Raised ''timed out''"
         and other_service = bd30b_only_service]
    h1 h2
  show ?thesis by (simp add: bd30b_only_service_def)
qed

lemma lower_example: "lower ''pASSWORD'' = lower ''PassWord''"
  by code_simp

text \<open>
  Claim C10. After add_to_blacklist(p), check_breach(q) reports a breach with a reason
  for every q that equals p up to letter case, in particular for p itself, whatever the
  state of the checker was before and whether or not the remote check is enabled.
\<close>

theorem blacklist_round_trip:
  "lower q = lower p \<Longrightarrow>
   check_breach pf cfg (add_to_blacklist self p) q
   = (True, Some ''Password found in common breach database (top 10k)'')"
  by (simp add: check_breach_def add_to_blacklist_def)

theorem blacklist_round_trip_witness:
  "lower ''pASSWORD'' = lower ''PassWord''
   \<and> check_breach offline_platform BREACH_CONFIG
       (add_to_blacklist \<lparr>blacklist = {}\<rparr> ''PassWord'') ''pASSWORD''
     = (True, Some ''Password found in common breach database (top 10k)'')"
  using blacklist_round_trip [of "''pASSWORD''" "''PassWord''" offline_platform BREACH_CONFIG
      "\<lparr>blacklist = {}\<rparr>"] lower_example
  by simp

section \<open>Properties of the sequential detector\<close>












section \<open>Properties of the evaluator\<close>

lemma superscript_window_raises:
  "detect_sequential_chars superscript_password = Inl ValueError"
  by code_simp

lemma superscript_nonempty: "superscript_password \<noteq> []"
  by (simp add: superscript_password_def)

text \<open>
  Claim C5. The evaluator does not return a result for every password: on the four
  characters 1, 2, superscript two, 4 the sequential detector calls int on the superscript,
  which str.isdigit accepts, and the ValueError escapes evaluate.
\<close>

theorem evaluate_raises_on_superscript_digit:
  "evaluate pf cfg self superscript_password None None = Inl ValueError"
  by (simp add: evaluate_def detect_all_def superscript_window_raises superscript_nonempty)

text \<open>
  Claim C9. The empty password gets the fixed result: score 0, strength Weak, entropy 0.0,
  not breached, no breach reason, and the single issue "Password is empty", whatever the
  detector, the breach checker, the platform, the user name and the e-mail address are.
\<close>

theorem evaluate_empty_password:
  "evaluate pf cfg self [] username email
   = Inr \<lparr>score = 0, strength = ''Weak'', entropy_bits = 0,
          issues = [''Password is empty''],
          recommendations = [''Password cannot be empty''],
          is_breached = False, breach_reason = None\<rparr>"
  by (simp add: evaluate_def)

end
